theory Spec2Isabelle
  imports Main "HOL-Library.Sublist"
begin

section \<open>The pluggable authentication boundary of Aphex CMS\<close>

text \<open>
  The code verified here is the TypeScript of \<^verbatim>\<open>AUTH.md\<close>: the \<^verbatim>\<open>AuthProvider\<close> interface with its
  two value types, the Better Auth adapter (the current implementation), the Clerk adapter
  of the migration guide, and the sign-up hook that creates the CMS user profile.

  Conventions of the embedding:
  \<^item> an \<^verbatim>\<open>async\<close> function that may throw returns \<open>thrown + 'a\<close>, \<open>Inl\<close> being the rejection;
  \<^item> \<^verbatim>\<open>T | null\<close> is \<open>T option\<close>, \<open>None\<close> being \<^verbatim>\<open>null\<close>;
  \<^item> an object literal is the list of its properties in the order written, so that the
    names of the properties are part of the value;
  \<^item> the identity provider (\<^verbatim>\<open>auth.api\<close>, \<^verbatim>\<open>clerkClient\<close>, \<^verbatim>\<open>db\<close>) is a record of functions,
    one per call the adapters make: it stands for the provider in its present state, and
    every call may answer or throw.
\<close>

subsection \<open>JavaScript values\<close>

datatype js =
    JUndefined
  | JString string
  | JDate int
  | JArray "js list"
  | JObject "(string \<times> js) list"

type_synonym obj = "(string \<times> js) list"

text \<open>\<^verbatim>\<open>o.f\<close> on an object: the value of the property, \<^verbatim>\<open>undefined\<close> when there is none.
  No literal of the code names a property twice.\<close>

definition property :: "obj \<Rightarrow> string \<Rightarrow> js" where
  "property ob f = (case map_of ob f of Some v \<Rightarrow> v | None \<Rightarrow> JUndefined)"

text \<open>What a rejected promise carries: \<^verbatim>\<open>new Error(message)\<close> thrown by the adapter itself, a
  \<^verbatim>\<open>TypeError\<close> of the runtime, or a failure of the identity provider's own (network error,
  malformed token, database error), identified by its message. A provider call answers
  \<open>Inl message\<close> when it throws; no adapter has a \<^verbatim>\<open>try\<close>/\<^verbatim>\<open>catch\<close>, so the failure leaves the
  adapter as it came, which \<open>ProviderError message\<close> records.\<close>

datatype thrown =
    Error string
  | TypeError
  | ProviderError string

abbreviation Unauthorized :: thrown where
  "Unauthorized \<equiv> Error ''Unauthorized''"

abbreviation Forbidden :: thrown where
  "Forbidden \<equiv> Error ''Forbidden''"

text \<open>\<^verbatim>\<open>permission?: 'read' | 'write'\<close>: the two string literals.\<close>

datatype permission = Read | Write

definition permission_lit :: "permission \<Rightarrow> string" where
  "permission_lit p = (case p of Read \<Rightarrow> ''read'' | Write \<Rightarrow> ''write'')"

text \<open>\<^verbatim>\<open>a.includes(x)\<close> for a string \<open>x\<close>, as \<^verbatim>\<open>requireApiKey\<close> calls it on
  \<^verbatim>\<open>apiKey.permissions\<close> (declared \<^verbatim>\<open>('read' | 'write')[]\<close>): membership in an array, the
  substring test of \<^verbatim>\<open>String.prototype.includes\<close> on a string, and a \<^verbatim>\<open>TypeError\<close> on
  \<^verbatim>\<open>undefined\<close>, a \<^verbatim>\<open>Date\<close> or a plain object, which have no such method.\<close>

fun js_includes :: "js \<Rightarrow> string \<Rightarrow> thrown + bool" where
  "js_includes (JArray xs) x = Inr (JString x \<in> set xs)"
| "js_includes (JString s) x = Inr (sublist x s)"
| "js_includes _ x = Inl TypeError"

text \<open>\<^verbatim>\<open>x ?? undefined\<close> on a nullable string.\<close>

definition nullish_undefined :: "string option \<Rightarrow> js" where
  "nullish_undefined x = (case x of None \<Rightarrow> JUndefined | Some s \<Rightarrow> JString s)"

text \<open>The part of a \<^verbatim>\<open>Request\<close> the adapters read: \<^verbatim>\<open>request.headers.get(name)\<close>.\<close>

record request =
  headers :: "string \<Rightarrow> string option"

subsection \<open>The contract: \<^verbatim>\<open>SessionAuth\<close> and \<^verbatim>\<open>ApiKeyAuth\<close>\<close>

text \<open>The two interfaces of \<^verbatim>\<open>packages/cms-core/src/types.ts\<close>, read structurally as
  TypeScript does: every declared property has a value of its declared type, an optional
  one (\<^verbatim>\<open>name?\<close>) may be missing or \<^verbatim>\<open>undefined\<close>.\<close>

definition is_string :: "js \<Rightarrow> bool" where
  "is_string v = (case v of JString _ \<Rightarrow> True | _ \<Rightarrow> False)"

definition is_optional_string :: "js \<Rightarrow> bool" where
  "is_optional_string v = (case v of JString _ \<Rightarrow> True | JUndefined \<Rightarrow> True | _ \<Rightarrow> False)"

definition is_date :: "js \<Rightarrow> bool" where
  "is_date v = (case v of JDate _ \<Rightarrow> True | _ \<Rightarrow> False)"

definition is_optional_date :: "js \<Rightarrow> bool" where
  "is_optional_date v = (case v of JDate _ \<Rightarrow> True | JUndefined \<Rightarrow> True | _ \<Rightarrow> False)"

definition is_permissions :: "js \<Rightarrow> bool" where
  "is_permissions v =
     (case v of JArray xs \<Rightarrow> list_all (\<lambda>x. x = JString ''read'' \<or> x = JString ''write'') xs
      | _ \<Rightarrow> False)"

definition is_SessionAuth :: "obj \<Rightarrow> bool" where
  "is_SessionAuth a =
     (property a ''type'' = JString ''session'' \<and>
      (case property a ''user'' of
         JObject u \<Rightarrow>
           is_string (property u ''id'') \<and> is_string (property u ''email'') \<and>
           is_optional_string (property u ''name'') \<and> is_optional_string (property u ''image'')
       | _ \<Rightarrow> False) \<and>
      (case property a ''session'' of
         JObject s \<Rightarrow> is_string (property s ''id'') \<and> is_date (property s ''expiresAt'')
       | _ \<Rightarrow> False))"

definition is_ApiKeyAuth :: "obj \<Rightarrow> bool" where
  "is_ApiKeyAuth a =
     (property a ''type'' = JString ''api_key'' \<and>
      is_string (property a ''keyId'') \<and>
      is_string (property a ''name'') \<and>
      is_permissions (property a ''permissions'') \<and>
      is_optional_date (property a ''lastUsedAt''))"

subsection \<open>The mandatory variants\<close>

text \<open>
  \<^verbatim>\<open>requireSession\<close> and \<^verbatim>\<open>requireApiKey\<close> as the Clerk adapter writes them. Both reach
  the optional variant through \<^verbatim>\<open>this\<close>, so the method of \<^verbatim>\<open>this\<close> they call is the first
  argument here. \<^verbatim>\<open>!session\<close> on \<^verbatim>\<open>SessionAuth | null\<close> is the test for \<^verbatim>\<open>null\<close>: an object is
  never falsy.
\<close>

definition requireSession ::
  "(request \<Rightarrow> thrown + obj option) \<Rightarrow> request \<Rightarrow> thrown + obj" where
  "requireSession this_getSession request =
     (case this_getSession request of
        Inl e \<Rightarrow> Inl e
      | Inr None \<Rightarrow> Inl (Error ''Unauthorized'')
      | Inr (Some session) \<Rightarrow> Inr session)"

definition requireApiKey ::
  "(request \<Rightarrow> thrown + obj option) \<Rightarrow> request \<Rightarrow> permission option \<Rightarrow> thrown + obj" where
  "requireApiKey this_validateApiKey request permission =
     (case this_validateApiKey request of
        Inl e \<Rightarrow> Inl e
      | Inr None \<Rightarrow> Inl (Error ''Unauthorized'')
      | Inr (Some apiKey) \<Rightarrow>
          (case permission of
             None \<Rightarrow> Inr apiKey
           | Some p \<Rightarrow>
               (case js_includes (property apiKey ''permissions'') (permission_lit p) of
                  Inl e \<Rightarrow> Inl e
                | Inr True \<Rightarrow> Inr apiKey
                | Inr False \<Rightarrow> Inl (Error ''Forbidden''))))"

subsection \<open>The Better Auth adapter\<close>

text \<open>What Better Auth hands to the adapter. The columns are those of
  \<^verbatim>\<open>auth-schema.ts\<close>; \<open>key_permissions\<close> is the permission set stored with the key (the
  \<^verbatim>\<open>permissions\<close> column), which the adapter never reads.\<close>

record ba_user =
  user_id :: string
  user_email :: string
  user_name :: "string option"
  user_image :: "string option"

record ba_session_row =
  session_id :: string
  session_expiresAt :: int

record ba_session =
  user :: ba_user
  session :: ba_session_row

record ba_apikey =
  key_id :: string
  key_name :: "string option"
  key_permissions :: "permission list"

record ba_verified =
  valid :: bool
  key :: "ba_apikey option"

text \<open>\<^verbatim>\<open>auth.api\<close>: \<^verbatim>\<open>getSession({ headers })\<close> and \<^verbatim>\<open>verifyApiKey({ body: { key } })\<close>.\<close>

record ba_api =
  api_getSession :: "(string \<Rightarrow> string option) \<Rightarrow> string + ba_session option"
  api_verifyApiKey :: "string \<Rightarrow> string + ba_verified"

definition ba_getSession :: "ba_api \<Rightarrow> request \<Rightarrow> thrown + obj option" where
  "ba_getSession auth request =
     (case api_getSession auth (headers request) of
        Inl e \<Rightarrow> Inl (ProviderError e)
      | Inr None \<Rightarrow> Inr None
      | Inr (Some s) \<Rightarrow>
          Inr (Some
            [(''type'', JString ''session''),
             (''user'', JObject
                [(''id'', JString (user_id (user s))),
                 (''email'', JString (user_email (user s))),
                 (''name'', nullish_undefined (user_name (user s))),
                 (''image'', nullish_undefined (user_image (user s)))]),
             (''session'', JObject
                [(''id'', JString (session_id (session s))),
                 (''expiresAt'', JDate (session_expiresAt (session s)))])]))"

text \<open>\<^verbatim>\<open>!apiKeyHeader\<close> holds for a missing header and for an empty one;
  \<^verbatim>\<open>result.key.id\<close> on a missing \<^verbatim>\<open>key\<close> is a \<^verbatim>\<open>TypeError\<close>; \<^verbatim>\<open>name || 'Unnamed Key'\<close>
  replaces \<^verbatim>\<open>null\<close> and the empty name.\<close>

definition ba_validateApiKey :: "ba_api \<Rightarrow> request \<Rightarrow> thrown + obj option" where
  "ba_validateApiKey auth request =
     (case headers request ''x-api-key'' of
        None \<Rightarrow> Inr None
      | Some apiKeyHeader \<Rightarrow>
          if apiKeyHeader = [] then Inr None
          else
            (case api_verifyApiKey auth apiKeyHeader of
               Inl e \<Rightarrow> Inl (ProviderError e)
             | Inr result \<Rightarrow>
                 if \<not> valid result then Inr None
                 else
                   (case key result of
                      None \<Rightarrow> Inl TypeError
                    | Some k \<Rightarrow>
                        Inr (Some
                          [(''type'', JString ''api_key''),
                           (''keyId'', JString (key_id k)),
                           (''name'', JString
                              (case key_name k of
                                 None \<Rightarrow> ''Unnamed Key''
                               | Some n \<Rightarrow> if n = [] then ''Unnamed Key'' else n)),
                           (''permissions'', JArray [JString ''read'', JString ''write''])]))))"

text \<open>The adapter's listing ends with \<^verbatim>\<open>// ... requireSession, requireApiKey\<close>: the two
  bodies are not printed for Better Auth. They are taken to be the ones the document does
  print (the Clerk adapter's), called on the Better Auth object.\<close>

definition ba_requireSession :: "ba_api \<Rightarrow> request \<Rightarrow> thrown + obj" where
  "ba_requireSession auth = requireSession (ba_getSession auth)"

definition ba_requireApiKey :: "ba_api \<Rightarrow> request \<Rightarrow> permission option \<Rightarrow> thrown + obj" where
  "ba_requireApiKey auth = requireApiKey (ba_validateApiKey auth)"

subsection \<open>The Clerk adapter\<close>

text \<open>What the Clerk client and the key table hand to the adapter. \<open>emailAddresses\<close> holds
  the \<^verbatim>\<open>emailAddress\<close> of each entry; \<^verbatim>\<open>firstName\<close> and \<^verbatim>\<open>lastName\<close> may be \<^verbatim>\<open>null\<close>;
  \<^verbatim>\<open>expireAt\<close> is a number of milliseconds.\<close>

record clerk_user =
  clerk_user_id :: string
  emailAddresses :: "string list"
  firstName :: "string option"
  lastName :: "string option"
  imageUrl :: string

record clerk_session =
  clerk_session_id :: string
  session_userId :: string
  expireAt :: int

record clerk_key =
  clerk_key_id :: string
  clerk_key_name :: string
  clerk_key_permissions :: "permission list"

text \<open>\<^verbatim>\<open>clerkClient.sessions.getSession\<close>, \<^verbatim>\<open>clerkClient.users.getUser\<close> and
  \<^verbatim>\<open>db.query.apiKeys.findFirst({ where: eq(apiKeys.key, apiKey) })\<close>.\<close>

record clerk_api =
  sessions_getSession :: "string \<Rightarrow> string + clerk_session option"
  users_getUser :: "string \<Rightarrow> string + clerk_user"
  apiKeys_findFirst :: "string \<Rightarrow> string + clerk_key option"

text \<open>A nullable string inside a template literal prints as \<^verbatim>\<open>null\<close>.\<close>

definition template_string :: "string option \<Rightarrow> string" where
  "template_string x = (case x of None \<Rightarrow> ''null'' | Some s \<Rightarrow> s)"

definition clerk_getSession :: "clerk_api \<Rightarrow> request \<Rightarrow> thrown + obj option" where
  "clerk_getSession clerkClient request =
     (case headers request ''x-clerk-session-id'' of
        None \<Rightarrow> Inr None
      | Some sessionId \<Rightarrow>
          if sessionId = [] then Inr None
          else
            (case sessions_getSession clerkClient sessionId of
               Inl e \<Rightarrow> Inl (ProviderError e)
             | Inr None \<Rightarrow> Inr None
             | Inr (Some s) \<Rightarrow>
                 (case users_getUser clerkClient (session_userId s) of
                    Inl e \<Rightarrow> Inl (ProviderError e)
                  | Inr u \<Rightarrow>
                      Inr (Some
                        [(''type'', JString ''session''),
                         (''user'', JObject
                            [(''id'', JString (clerk_user_id u)),
                             (''email'', JString
                                (case emailAddresses u of [] \<Rightarrow> [] | a # _ \<Rightarrow> a)),
                             (''name'', JString
                                (template_string (firstName u) @ '' '' @
                                 template_string (lastName u))),
                             (''image'', JString (imageUrl u))]),
                         (''session'', JObject
                            [(''id'', JString (clerk_session_id s)),
                             (''expiresAt'', JDate (expireAt s))])]))))"

definition clerk_validateApiKey :: "clerk_api \<Rightarrow> request \<Rightarrow> thrown + obj option" where
  "clerk_validateApiKey clerkClient request =
     (case headers request ''x-api-key'' of
        None \<Rightarrow> Inr None
      | Some apiKey \<Rightarrow>
          if apiKey = [] then Inr None
          else
            (case apiKeys_findFirst clerkClient apiKey of
               Inl e \<Rightarrow> Inl (ProviderError e)
             | Inr None \<Rightarrow> Inr None
             | Inr (Some k) \<Rightarrow>
                 Inr (Some
                   [(''type'', JString ''api_key''),
                    (''keyId'', JString (clerk_key_id k)),
                    (''name'', JString (clerk_key_name k)),
                    (''permissions'',
                       JArray (map (\<lambda>p. JString (permission_lit p)) (clerk_key_permissions k)))])))"

definition clerk_requireSession :: "clerk_api \<Rightarrow> request \<Rightarrow> thrown + obj" where
  "clerk_requireSession clerkClient = requireSession (clerk_getSession clerkClient)"

definition clerk_requireApiKey ::
  "clerk_api \<Rightarrow> request \<Rightarrow> permission option \<Rightarrow> thrown + obj" where
  "clerk_requireApiKey clerkClient = requireApiKey (clerk_validateApiKey clerkClient)"

subsection \<open>User profile sync on sign-up\<close>

text \<open>The table \<^verbatim>\<open>cms_user_profiles\<close> and the \<^verbatim>\<open>hooks.after\<close> middleware of the Better Auth
  configuration. The hook is modelled by the statements it sends to the database, in order.

  The context \<open>ctx\<close> is Better Auth's, whose type the document does not print:
  \<open>context_user\<close> is \<^verbatim>\<open>ctx.context.user\<close>, the one property the hook reads besides the path;
  \<open>context_newSession\<close> is \<^verbatim>\<open>ctx.context.newSession\<close>, where Better Auth puts the session and
  the user it has just created. After a successful sign-up the created user is there, and
  \<^verbatim>\<open>ctx.context.user\<close> is not set.\<close>

datatype role = Admin | Editor | Viewer

record userProfile =
  userId :: string
  role :: "role option"
  preferences :: "js option"

datatype db_stmt = Insert_userProfiles userProfile

record hook_ctx =
  path :: string
  context_user :: "ba_user option"
  context_newSession :: "ba_session option"

definition after_hook :: "hook_ctx \<Rightarrow> db_stmt list" where
  "after_hook ctx =
     (if path ctx = ''/sign-up/email''
      then
        (case context_user ctx of
           None \<Rightarrow> []
         | Some u \<Rightarrow>
             [Insert_userProfiles
                \<lparr>userId = user_id u, role = Some Editor, preferences = None\<rparr>])
      else [])"

text \<open>The effect of the statements on the table: \<^verbatim>\<open>user_id\<close> is the primary key, so an
  insert is refused when the table already holds a row with that key, and adds one row
  otherwise.\<close>

fun run_db :: "db_stmt list \<Rightarrow> userProfile list \<Rightarrow> thrown + userProfile list" where
  "run_db [] tbl = Inr tbl"
| "run_db (Insert_userProfiles r # rest) tbl =
     (if userId r \<in> set (map userId tbl)
      then Inl (ProviderError ''duplicate key'')
      else run_db rest (tbl @ [r]))"

subsection \<open>Outcomes of the boundary\<close>

text \<open>The outcomes the contract allows an operation: a canonical value (\<open>canonical\<close> being
  \<open>is_SessionAuth\<close> or \<open>is_ApiKeyAuth\<close>), absence for an optional variant, and the two errors
  \<^verbatim>\<open>Unauthorized\<close> and \<^verbatim>\<open>Forbidden\<close> for a mandatory one.\<close>

definition boundary_error :: "thrown \<Rightarrow> bool" where
  "boundary_error e = (e = Error ''Unauthorized'' \<or> e = Error ''Forbidden'')"

definition optional_outcome :: "(obj \<Rightarrow> bool) \<Rightarrow> thrown + obj option \<Rightarrow> bool" where
  "optional_outcome canonical r =
     (case r of
        Inl e \<Rightarrow> boundary_error e
      | Inr None \<Rightarrow> True
      | Inr (Some a) \<Rightarrow> canonical a)"

definition required_outcome :: "(obj \<Rightarrow> bool) \<Rightarrow> thrown + obj \<Rightarrow> bool" where
  "required_outcome canonical r =
     (case r of
        Inl e \<Rightarrow> boundary_error e
      | Inr a \<Rightarrow> canonical a)"

subsection \<open>Sample providers and requests\<close>

definition sample_user :: ba_user where
  "sample_user =
     \<lparr>user_id = ''u1'', user_email = ''ada@example.org'', user_name = Some ''Ada'',
      user_image = None\<rparr>"

definition sample_session :: ba_session where
  "sample_session =
     \<lparr>user = sample_user, session = \<lparr>session_id = ''s1'', session_expiresAt = 1700000000000\<rparr>\<rparr>"

text \<open>A Better Auth instance that knows one session cookie and one API key, \<^verbatim>\<open>abc123\<close>, whose
  record \<^verbatim>\<open>k1\<close> stores the permission set \<^verbatim>\<open>{read}\<close>.\<close>

definition sample_auth :: ba_api where
  "sample_auth =
     \<lparr>api_getSession =
        (\<lambda>h. if h ''cookie'' = Some ''session_token=t1'' then Inr (Some sample_session)
             else Inr None),
      api_verifyApiKey =
        (\<lambda>k. if k = ''abc123''
             then Inr \<lparr>valid = True,
                       key = Some \<lparr>key_id = ''k1'', key_name = Some ''ci'',
                                   key_permissions = [Read]\<rparr>\<rparr>
             else Inr \<lparr>valid = False, key = None\<rparr>)\<rparr>"

text \<open>A Better Auth instance whose backing store cannot be reached.\<close>

definition failing_auth :: ba_api where
  "failing_auth =
     \<lparr>api_getSession = (\<lambda>h. Inl ''ECONNREFUSED''),
      api_verifyApiKey = (\<lambda>k. Inl ''ECONNREFUSED'')\<rparr>"

definition sample_clerk :: clerk_api where
  "sample_clerk =
     \<lparr>sessions_getSession =
        (\<lambda>i. if i = ''sess_1''
             then Inr (Some \<lparr>clerk_session_id = ''sess_1'', session_userId = ''user_1'',
                             expireAt = 1700000000000\<rparr>)
             else Inr None),
      users_getUser =
        (\<lambda>i. Inr \<lparr>clerk_user_id = i, emailAddresses = [''ada@example.org''],
                   firstName = Some ''Ada'', lastName = None, imageUrl = ''https://img/1''\<rparr>),
      apiKeys_findFirst =
        (\<lambda>k. if k = ''abc123''
             then Inr (Some \<lparr>clerk_key_id = ''k1'', clerk_key_name = ''ci'',
                             clerk_key_permissions = [Read]\<rparr>)
             else if k = ''none000''
             then Inr (Some \<lparr>clerk_key_id = ''k0'', clerk_key_name = ''empty'',
                             clerk_key_permissions = []\<rparr>)
             else Inr None)\<rparr>"

text \<open>The context of the after-hook when \<open>sample_user\<close> has just signed up by email.\<close>

definition signup_ctx :: hook_ctx where
  "signup_ctx =
     \<lparr>path = ''/sign-up/email'', context_user = None,
      context_newSession = Some sample_session\<rparr>"

definition no_credentials :: request where
  "no_credentials = \<lparr>headers = (\<lambda>n. None)\<rparr>"

definition with_cookie :: request where
  "with_cookie = \<lparr>headers = (\<lambda>n. if n = ''cookie'' then Some ''session_token=t1'' else None)\<rparr>"

definition with_clerk_session :: request where
  "with_clerk_session =
     \<lparr>headers = (\<lambda>n. if n = ''x-clerk-session-id'' then Some ''sess_1'' else None)\<rparr>"

definition with_key :: "string \<Rightarrow> request" where
  "with_key k = \<lparr>headers = (\<lambda>n. if n = ''x-api-key'' then Some k else None)\<rparr>"

section \<open>Properties\<close>

subsection \<open>Auxiliary facts\<close>

lemmas sample_defs =
  sample_auth_def sample_session_def sample_user_def failing_auth_def sample_clerk_def
  no_credentials_def with_cookie_def with_clerk_session_def with_key_def signup_ctx_def

lemma ba_getSession_Some:
  assumes "ba_getSession auth request = Inr (Some a)"
  obtains s where "api_getSession auth (headers request) = Inr (Some s)"
    and "a = [(''type'', JString ''session''),
              (''user'', JObject
                 [(''id'', JString (user_id (user s))),
                  (''email'', JString (user_email (user s))),
                  (''name'', nullish_undefined (user_name (user s))),
                  (''image'', nullish_undefined (user_image (user s)))]),
              (''session'', JObject
                 [(''id'', JString (session_id (session s))),
                  (''expiresAt'', JDate (session_expiresAt (session s)))])]"
  using assms by (auto simp: ba_getSession_def split: sum.splits option.splits)

lemma ba_validateApiKey_Some:
  assumes "ba_validateApiKey auth request = Inr (Some k)"
  obtains i n where
    "k = [(''type'', JString ''api_key''), (''keyId'', JString i), (''name'', JString n),
          (''permissions'', JArray [JString ''read'', JString ''write''])]"
  using assms
  by (auto simp: ba_validateApiKey_def split: sum.splits option.splits if_splits)

lemma requireSession_Inr:
  "requireSession g request = Inr a \<longleftrightarrow> g request = Inr (Some a)"
  by (auto simp: requireSession_def split: sum.splits option.splits)

lemma requireApiKey_Inr:
  "requireApiKey g request p = Inr a \<Longrightarrow> g request = Inr (Some a)"
  by (auto simp: requireApiKey_def split: sum.splits option.splits bool.splits)

lemma is_optional_string_nullish: "is_optional_string (nullish_undefined x)"
  by (cases x) (simp_all add: nullish_undefined_def is_optional_string_def)

lemma permission_lit_cases:
  "permission_lit p = ''read'' \<or> permission_lit p = ''write''"
  by (cases p) (simp_all add: permission_lit_def)

lemma ba_session_shape:
  assumes "ba_getSession auth request = Inr (Some a)"
  shows "property a ''type'' = JString ''session'' \<and> is_SessionAuth a \<and>
         map fst a = [''type'', ''user'', ''session'']"
  using assms
  by (elim ba_getSession_Some)
     (simp add: is_SessionAuth_def property_def is_string_def is_date_def
        is_optional_string_nullish)

lemma ba_key_shape:
  assumes "ba_validateApiKey auth request = Inr (Some k)"
  shows "property k ''type'' = JString ''api_key'' \<and> is_ApiKeyAuth k \<and>
         map fst k = [''type'', ''keyId'', ''name'', ''permissions'']"
  using assms
  by (elim ba_validateApiKey_Some)
     (simp add: is_ApiKeyAuth_def property_def is_string_def is_permissions_def
        is_optional_date_def)

lemma clerk_getSession_Some:
  assumes "clerk_getSession c request = Inr (Some a)"
  obtains i e n im si ex where
    "a = [(''type'', JString ''session''),
          (''user'', JObject [(''id'', JString i), (''email'', JString e),
                              (''name'', JString n), (''image'', JString im)]),
          (''session'', JObject [(''id'', JString si), (''expiresAt'', JDate ex)])]"
  using assms
  by (auto simp: clerk_getSession_def split: sum.splits option.splits if_splits)

lemma clerk_validateApiKey_Some:
  assumes "clerk_validateApiKey c request = Inr (Some k)"
  obtains i n ps where
    "k = [(''type'', JString ''api_key''), (''keyId'', JString i), (''name'', JString n),
          (''permissions'', JArray (map (\<lambda>p. JString (permission_lit p)) ps))]"
  using assms
  by (auto simp: clerk_validateApiKey_def split: sum.splits option.splits if_splits)

lemma is_permissions_map: "is_permissions (JArray (map (\<lambda>p. JString (permission_lit p)) ps))"
  using permission_lit_cases by (induction ps) (auto simp: is_permissions_def)

lemma clerk_session_shape:
  assumes "clerk_getSession c request = Inr (Some a)"
  shows "property a ''type'' = JString ''session'' \<and> is_SessionAuth a \<and>
         map fst a = [''type'', ''user'', ''session'']"
  using assms
  by (elim clerk_getSession_Some)
     (simp add: is_SessionAuth_def property_def is_string_def is_date_def
        is_optional_string_def)

lemma clerk_key_shape:
  assumes "clerk_validateApiKey c request = Inr (Some k)"
  shows "property k ''type'' = JString ''api_key'' \<and> is_ApiKeyAuth k \<and>
         map fst k = [''type'', ''keyId'', ''name'', ''permissions'']"
  using assms
  by (elim clerk_validateApiKey_Some)
     (simp add: is_ApiKeyAuth_def property_def is_string_def is_permissions_map
        is_optional_date_def)

lemma required_outcome_requireSession:
  "optional_outcome canonical (g request) \<Longrightarrow>
   required_outcome canonical (requireSession g request)"
  by (auto simp: optional_outcome_def required_outcome_def requireSession_def
      boundary_error_def split: sum.splits option.splits)

lemma required_outcome_requireApiKey:
  "optional_outcome is_ApiKeyAuth (g request) \<Longrightarrow>
   required_outcome is_ApiKeyAuth (requireApiKey g request p)"
  by (auto simp: optional_outcome_def required_outcome_def requireApiKey_def
      boundary_error_def is_ApiKeyAuth_def is_permissions_def
      split: sum.splits option.splits bool.splits js.splits)

lemma optional_outcome_ba_getSession:
  "api_getSession auth (headers request) = Inr r \<Longrightarrow>
   optional_outcome is_SessionAuth (ba_getSession auth request)"
  using ba_session_shape [of auth request]
  by (cases "ba_getSession auth request")
     (auto simp: optional_outcome_def ba_getSession_def split: option.splits)

lemma optional_outcome_ba_validateApiKey:
  "headers request ''x-api-key'' = None \<or> headers request ''x-api-key'' = Some [] \<or>
   (\<exists>h r. headers request ''x-api-key'' = Some h \<and> api_verifyApiKey auth h = Inr r \<and>
          (valid r \<longrightarrow> key r \<noteq> None)) \<Longrightarrow>
   optional_outcome is_ApiKeyAuth (ba_validateApiKey auth request)"
  using ba_key_shape [of auth request]
  by (cases "ba_validateApiKey auth request")
     (auto simp: optional_outcome_def ba_validateApiKey_def split: option.splits if_splits)

lemma optional_outcome_clerk_getSession:
  "headers request ''x-clerk-session-id'' = None \<or>
   headers request ''x-clerk-session-id'' = Some [] \<or>
   (\<exists>i. headers request ''x-clerk-session-id'' = Some i \<and>
        (sessions_getSession clerkClient i = Inr None \<or>
         (\<exists>s u. sessions_getSession clerkClient i = Inr (Some s) \<and>
                users_getUser clerkClient (session_userId s) = Inr u))) \<Longrightarrow>
   optional_outcome is_SessionAuth (clerk_getSession clerkClient request)"
  using clerk_session_shape [of clerkClient request]
  by (cases "clerk_getSession clerkClient request")
     (auto simp: optional_outcome_def clerk_getSession_def split: option.splits if_splits)

lemma optional_outcome_clerk_validateApiKey:
  "headers request ''x-api-key'' = None \<or> headers request ''x-api-key'' = Some [] \<or>
   (\<exists>h r. headers request ''x-api-key'' = Some h \<and> apiKeys_findFirst clerkClient h = Inr r) \<Longrightarrow>
   optional_outcome is_ApiKeyAuth (clerk_validateApiKey clerkClient request)"
  using clerk_key_shape [of clerkClient request]
  by (cases "clerk_validateApiKey clerkClient request")
     (auto simp: optional_outcome_def clerk_validateApiKey_def split: option.splits if_splits)

subsection \<open>The mandatory variants against the optional ones\<close>

text \<open>
  \<^bold>\<open>C7.\<close> For every request, \<^verbatim>\<open>requireSession\<close> succeeds exactly when \<^verbatim>\<open>getSession\<close> on the
  same request returns a \<^verbatim>\<open>SessionAuth\<close> (not \<^verbatim>\<open>null\<close>); it then returns that very value; and
  when \<^verbatim>\<open>getSession\<close> returns \<^verbatim>\<open>null\<close> it fails with \<^verbatim>\<open>Unauthorized\<close>. This holds for whatever
  \<^verbatim>\<open>getSession\<close> the provider object has.
\<close>

theorem requireSession_iff_getSession:
  "((\<exists>a. requireSession this_getSession request = Inr a) \<longleftrightarrow>
      (\<exists>a. this_getSession request = Inr (Some a))) \<and>
   (\<forall>a. this_getSession request = Inr (Some a) \<longrightarrow>
      requireSession this_getSession request = Inr a) \<and>
   (this_getSession request = Inr None \<longrightarrow>
      requireSession this_getSession request = Inl Unauthorized)"
  by (auto simp: requireSession_def split: sum.splits option.splits)

theorem requireSession_iff_getSession_witness:
  "requireSession (ba_getSession sample_auth) with_cookie =
     Inr [(''type'', JString ''session''),
          (''user'', JObject [(''id'', JString ''u1''), (''email'', JString ''ada@example.org''),
                              (''name'', JString ''Ada''), (''image'', JUndefined)]),
          (''session'', JObject [(''id'', JString ''s1''),
                                 (''expiresAt'', JDate 1700000000000)])] \<and>
   requireSession (ba_getSession sample_auth) no_credentials = Inl Unauthorized"
  using requireSession_iff_getSession [of "ba_getSession sample_auth" with_cookie]
    requireSession_iff_getSession [of "ba_getSession sample_auth" no_credentials]
  by (simp add: ba_getSession_def sample_defs nullish_undefined_def)

text \<open>
  \<^bold>\<open>C3.\<close> For every request and every optional permission argument \<open>p\<close>, \<^verbatim>\<open>requireApiKey\<close>
  fails with \<^verbatim>\<open>Unauthorized\<close> when \<^verbatim>\<open>validateApiKey\<close> returns \<^verbatim>\<open>null\<close>; it fails with
  \<^verbatim>\<open>Forbidden\<close> when a key validates, \<open>p\<close> is supplied and \<open>p\<close> is not in the permissions of
  the returned key; otherwise (no \<open>p\<close>, or \<open>p\<close> among the permissions) it returns the
  validated key. The permissions of the key are the array \<open>ps\<close> its \<^verbatim>\<open>permissions\<close> property
  holds, as the type \<^verbatim>\<open>ApiKeyAuth\<close> declares.
\<close>

theorem requireApiKey_outcomes:
  "(this_validateApiKey request = Inr None \<longrightarrow>
      requireApiKey this_validateApiKey request p = Inl Unauthorized) \<and>
   (\<forall>apiKey ps q.
      this_validateApiKey request = Inr (Some apiKey) \<and>
      property apiKey ''permissions'' = JArray ps \<and> p = Some q \<and>
      JString (permission_lit q) \<notin> set ps \<longrightarrow>
      requireApiKey this_validateApiKey request p = Inl Forbidden) \<and>
   (\<forall>apiKey ps.
      this_validateApiKey request = Inr (Some apiKey) \<and>
      property apiKey ''permissions'' = JArray ps \<and>
      (case p of None \<Rightarrow> True | Some q \<Rightarrow> JString (permission_lit q) \<in> set ps) \<longrightarrow>
      requireApiKey this_validateApiKey request p = Inr apiKey)"
  by (auto simp: requireApiKey_def split: option.splits)

theorem requireApiKey_outcomes_witness:
  "requireApiKey (clerk_validateApiKey sample_clerk) no_credentials (Some Read) =
     Inl Unauthorized \<and>
   requireApiKey (clerk_validateApiKey sample_clerk) (with_key ''abc123'') (Some Write) =
     Inl Forbidden \<and>
   requireApiKey (clerk_validateApiKey sample_clerk) (with_key ''abc123'') (Some Read) =
     Inr [(''type'', JString ''api_key''), (''keyId'', JString ''k1''),
          (''name'', JString ''ci''), (''permissions'', JArray [JString ''read''])]"
  using
    requireApiKey_outcomes [of "clerk_validateApiKey sample_clerk" no_credentials "Some Read"]
    requireApiKey_outcomes
      [of "clerk_validateApiKey sample_clerk" "with_key ''abc123''" "Some Write"]
    requireApiKey_outcomes
      [of "clerk_validateApiKey sample_clerk" "with_key ''abc123''" "Some Read"]
  by (simp add: clerk_validateApiKey_def sample_defs property_def permission_lit_def)

text \<open>
  \<^bold>\<open>C9.\<close> For every request for which \<^verbatim>\<open>validateApiKey\<close> returns a key, \<^verbatim>\<open>requireApiKey(request)\<close>
  without a permission argument succeeds and returns that key, whatever its permissions
  (the witness has a key with the empty permission set).
\<close>

theorem requireApiKey_without_permission:
  "this_validateApiKey request = Inr (Some apiKey) \<Longrightarrow>
   requireApiKey this_validateApiKey request None = Inr apiKey"
  by (simp add: requireApiKey_def)

theorem requireApiKey_without_permission_witness:
  "clerk_validateApiKey sample_clerk (with_key ''none000'') =
     Inr (Some [(''type'', JString ''api_key''), (''keyId'', JString ''k0''),
                (''name'', JString ''empty''), (''permissions'', JArray [])]) \<and>
   requireApiKey (clerk_validateApiKey sample_clerk) (with_key ''none000'') None =
     Inr [(''type'', JString ''api_key''), (''keyId'', JString ''k0''),
          (''name'', JString ''empty''), (''permissions'', JArray [])]"
proof -
  have v: "clerk_validateApiKey sample_clerk (with_key ''none000'') =
     Inr (Some [(''type'', JString ''api_key''), (''keyId'', JString ''k0''),
                (''name'', JString ''empty''), (''permissions'', JArray [])])"
    by (simp add: clerk_validateApiKey_def sample_defs)
  from v requireApiKey_without_permission
    [of "clerk_validateApiKey sample_clerk" "with_key ''none000''", OF v]
  show ?thesis by simp
qed

subsection \<open>Permissions under the Better Auth adapter\<close>

text \<open>
  \<^bold>\<open>C2.\<close> Under the Better Auth adapter, every \<^verbatim>\<open>ApiKeyAuth\<close> returned by \<^verbatim>\<open>validateApiKey\<close>
  has the permissions \<^verbatim>\<open>['read', 'write']\<close>, whatever the provider stores with the key
  (the provider \<open>auth\<close> is arbitrary); so for every request whose key the adapter
  validates, \<^verbatim>\<open>requireApiKey(request, p)\<close> succeeds for \<open>p\<close> = \<^verbatim>\<open>'read'\<close> and for
  \<open>p\<close> = \<^verbatim>\<open>'write'\<close>, and no call of \<^verbatim>\<open>requireApiKey\<close> ends in \<^verbatim>\<open>Forbidden\<close>.
\<close>

theorem ba_permissions_always_read_write:
  "(\<forall>k. ba_validateApiKey auth request = Inr (Some k) \<longrightarrow>
      property k ''permissions'' = JArray [JString ''read'', JString ''write''] \<and>
      ba_requireApiKey auth request (Some Read) = Inr k \<and>
      ba_requireApiKey auth request (Some Write) = Inr k) \<and>
   ba_requireApiKey auth request p \<noteq> Inl Forbidden"
proof (intro conjI allI impI)
  fix k assume v: "ba_validateApiKey auth request = Inr (Some k)"
  then show "property k ''permissions'' = JArray [JString ''read'', JString ''write'']"
    by (elim ba_validateApiKey_Some) (simp add: property_def)
  then show "ba_requireApiKey auth request (Some Read) = Inr k"
    and "ba_requireApiKey auth request (Some Write) = Inr k"
    using v by (simp_all add: ba_requireApiKey_def requireApiKey_def permission_lit_def)
next
  show "ba_requireApiKey auth request p \<noteq> Inl Forbidden"
  proof (cases "ba_validateApiKey auth request")
    case (Inl e)
    then have "e \<noteq> Forbidden"
      by (auto simp: ba_validateApiKey_def split: sum.splits option.splits if_splits)
    with Inl show ?thesis by (simp add: ba_requireApiKey_def requireApiKey_def)
  next
    case (Inr r)
    show ?thesis
    proof (cases r)
      case None
      with Inr show ?thesis by (simp add: ba_requireApiKey_def requireApiKey_def)
    next
      case (Some k)
      with Inr have v: "ba_validateApiKey auth request = Inr (Some k)" by simp
      then have "property k ''permissions'' = JArray [JString ''read'', JString ''write'']"
        by (elim ba_validateApiKey_Some) (simp add: property_def)
      with v show ?thesis
        using permission_lit_cases
        by (auto simp: ba_requireApiKey_def requireApiKey_def split: option.splits)
    qed
  qed
qed

theorem ba_permissions_always_read_write_witness:
  "api_verifyApiKey sample_auth ''abc123'' =
     Inr \<lparr>valid = True,
          key = Some \<lparr>key_id = ''k1'', key_name = Some ''ci'', key_permissions = [Read]\<rparr>\<rparr> \<and>
   ba_validateApiKey sample_auth (with_key ''abc123'') =
     Inr (Some [(''type'', JString ''api_key''), (''keyId'', JString ''k1''),
                (''name'', JString ''ci''),
                (''permissions'', JArray [JString ''read'', JString ''write''])]) \<and>
   ba_requireApiKey sample_auth (with_key ''abc123'') (Some Write) =
     Inr [(''type'', JString ''api_key''), (''keyId'', JString ''k1''),
          (''name'', JString ''ci''),
          (''permissions'', JArray [JString ''read'', JString ''write''])]"
proof -
  have v: "ba_validateApiKey sample_auth (with_key ''abc123'') =
     Inr (Some [(''type'', JString ''api_key''), (''keyId'', JString ''k1''),
                (''name'', JString ''ci''),
                (''permissions'', JArray [JString ''read'', JString ''write''])])"
    by (simp add: ba_validateApiKey_def sample_defs)
  have s: "api_verifyApiKey sample_auth ''abc123'' =
     Inr \<lparr>valid = True,
          key = Some \<lparr>key_id = ''k1'', key_name = Some ''ci'', key_permissions = [Read]\<rparr>\<rparr>"
    by (simp add: sample_defs)
  from ba_permissions_always_read_write [of sample_auth "with_key ''abc123''" None] v s
  show ?thesis by simp
qed

text \<open>The Clerk adapter on a key whose record stores \<^verbatim>\<open>{read}\<close>: the stored set is what
  \<^verbatim>\<open>validateApiKey\<close> returns, \<^verbatim>\<open>'write'\<close> is refused and \<^verbatim>\<open>'read'\<close> granted.\<close>

lemma clerk_read_only_key:
  assumes "headers request ''x-api-key'' = Some h" and "h \<noteq> []"
    and "apiKeys_findFirst clerkClient h = Inr (Some k)"
    and "clerk_key_permissions k = [Read]"
  shows "\<exists>a. clerk_validateApiKey clerkClient request = Inr (Some a) \<and>
             property a ''permissions'' = JArray [JString ''read''] \<and>
             clerk_requireApiKey clerkClient request (Some Write) = Inl Forbidden \<and>
             clerk_requireApiKey clerkClient request (Some Read) = Inr a"
  using assms
  by (simp add: clerk_validateApiKey_def clerk_requireApiKey_def requireApiKey_def
      property_def permission_lit_def)

text \<open>
  \<^bold>\<open>C1.\<close> For a request presenting a valid API key whose stored record has the permission set
  \<^verbatim>\<open>{read}\<close>, \<^verbatim>\<open>validateApiKey\<close> should return permissions \<^verbatim>\<open>['read']\<close>,
  \<^verbatim>\<open>requireApiKey(request, 'write')\<close> should fail with \<^verbatim>\<open>Forbidden\<close> and
  \<^verbatim>\<open>requireApiKey(request, 'read')\<close> succeed. The Clerk adapter does so (\<open>clerk_read_only_key\<close>);
  the Better Auth adapter does not. Evaluated on the key \<^verbatim>\<open>abc123\<close>, whose record \<^verbatim>\<open>k1\<close> stores
  \<^verbatim>\<open>{read}\<close>: the value returned carries \<^verbatim>\<open>['read', 'write']\<close>, and
  \<^verbatim>\<open>requireApiKey(request, 'write')\<close> returns it instead of failing.
\<close>

theorem ba_validateApiKey_ignores_stored_permissions:
  "api_verifyApiKey sample_auth ''abc123'' =
     Inr \<lparr>valid = True,
          key = Some \<lparr>key_id = ''k1'', key_name = Some ''ci'', key_permissions = [Read]\<rparr>\<rparr> \<and>
   (case ba_validateApiKey sample_auth (with_key ''abc123'') of
      Inr (Some k) \<Rightarrow>
        property k ''keyId'' = JString ''k1'' \<and>
        property k ''permissions'' = JArray [JString ''read'', JString ''write''] \<and>
        property k ''permissions'' \<noteq> JArray [JString ''read''] \<and>
        ba_requireApiKey sample_auth (with_key ''abc123'') (Some Write) = Inr k
    | _ \<Rightarrow> False) \<and>
   ba_requireApiKey sample_auth (with_key ''abc123'') (Some Write) \<noteq> Inl Forbidden"
  by (simp add: ba_validateApiKey_def ba_requireApiKey_def requireApiKey_def sample_defs
      property_def permission_lit_def)

subsection \<open>Requests without a credential\<close>

text \<open>
  \<^bold>\<open>C4.\<close> For every request presenting neither a session credential nor an \<^verbatim>\<open>x-api-key\<close>
  header, \<^verbatim>\<open>getSession\<close> and \<^verbatim>\<open>validateApiKey\<close> return \<^verbatim>\<open>null\<close> without raising, and
  \<^verbatim>\<open>requireSession\<close> and \<^verbatim>\<open>requireApiKey\<close> fail with \<^verbatim>\<open>Unauthorized\<close>. The Better Auth adapter
  hands the headers to the provider, which alone knows what a session credential is: there
  the request presents none when \<^verbatim>\<open>auth.api.getSession\<close> answers \<^verbatim>\<open>null\<close> for its headers. The
  Clerk adapter reads the credential from the header \<^verbatim>\<open>x-clerk-session-id\<close>.
\<close>

theorem no_credentials_absent_unauthorized:
  "(api_getSession auth (headers request) = Inr None \<and>
    headers request ''x-api-key'' = None \<longrightarrow>
      ba_getSession auth request = Inr None \<and>
      ba_validateApiKey auth request = Inr None \<and>
      ba_requireSession auth request = Inl Unauthorized \<and>
      ba_requireApiKey auth request p = Inl Unauthorized) \<and>
   (headers request ''x-clerk-session-id'' = None \<and>
    headers request ''x-api-key'' = None \<longrightarrow>
      clerk_getSession clerkClient request = Inr None \<and>
      clerk_validateApiKey clerkClient request = Inr None \<and>
      clerk_requireSession clerkClient request = Inl Unauthorized \<and>
      clerk_requireApiKey clerkClient request p = Inl Unauthorized)"
  by (simp add: ba_getSession_def ba_validateApiKey_def ba_requireSession_def
      ba_requireApiKey_def clerk_getSession_def clerk_validateApiKey_def
      clerk_requireSession_def clerk_requireApiKey_def requireSession_def requireApiKey_def)

theorem no_credentials_absent_unauthorized_witness:
  "ba_getSession sample_auth no_credentials = Inr None \<and>
   ba_validateApiKey sample_auth no_credentials = Inr None \<and>
   ba_requireSession sample_auth no_credentials = Inl Unauthorized \<and>
   ba_requireApiKey sample_auth no_credentials (Some Read) = Inl Unauthorized \<and>
   clerk_getSession sample_clerk no_credentials = Inr None \<and>
   clerk_validateApiKey sample_clerk no_credentials = Inr None \<and>
   clerk_requireSession sample_clerk no_credentials = Inl Unauthorized \<and>
   clerk_requireApiKey sample_clerk no_credentials (Some Read) = Inl Unauthorized"
proof -
  have "api_getSession sample_auth (headers no_credentials) = Inr None"
    and "headers no_credentials ''x-api-key'' = None"
    and "headers no_credentials ''x-clerk-session-id'' = None"
    by (simp_all add: sample_defs)
  with no_credentials_absent_unauthorized [of sample_auth no_credentials "Some Read" sample_clerk] show ?thesis
    by blast
qed

subsection \<open>Failures of the identity provider\<close>

text \<open>
  \<^bold>\<open>C5\<close>, as amended. For every request, when the calls an adapter makes to the identity
  provider for it return normally (for Better Auth, a verification that reports the key
  valid carrying the key's record), each of the four operations yields only a canonical
  value, absence, \<^verbatim>\<open>Unauthorized\<close> or \<^verbatim>\<open>Forbidden\<close>. When such a call throws, the operation
  rejects with the provider's own failure: nothing catches it. Both for the Better Auth
  adapter and for the Clerk adapter, which asks the provider for the session and then for
  its user.
\<close>

theorem provider_answers_normalized:
  "(\<forall>r. api_getSession auth (headers request) = Inr r \<longrightarrow>
      optional_outcome is_SessionAuth (ba_getSession auth request) \<and>
      required_outcome is_SessionAuth (ba_requireSession auth request)) \<and>
   (\<forall>e. api_getSession auth (headers request) = Inl e \<longrightarrow>
      ba_getSession auth request = Inl (ProviderError e) \<and>
      ba_requireSession auth request = Inl (ProviderError e)) \<and>
   (headers request ''x-api-key'' = None \<or> headers request ''x-api-key'' = Some [] \<or>
    (\<exists>h r. headers request ''x-api-key'' = Some h \<and> api_verifyApiKey auth h = Inr r \<and>
           (valid r \<longrightarrow> key r \<noteq> None)) \<longrightarrow>
      optional_outcome is_ApiKeyAuth (ba_validateApiKey auth request) \<and>
      required_outcome is_ApiKeyAuth (ba_requireApiKey auth request p)) \<and>
   (\<forall>h e. headers request ''x-api-key'' = Some h \<and> h \<noteq> [] \<and>
          api_verifyApiKey auth h = Inl e \<longrightarrow>
      ba_validateApiKey auth request = Inl (ProviderError e) \<and>
      ba_requireApiKey auth request p = Inl (ProviderError e)) \<and>
   (headers request ''x-clerk-session-id'' = None \<or>
    headers request ''x-clerk-session-id'' = Some [] \<or>
    (\<exists>i. headers request ''x-clerk-session-id'' = Some i \<and>
         (sessions_getSession clerkClient i = Inr None \<or>
          (\<exists>s u. sessions_getSession clerkClient i = Inr (Some s) \<and>
                 users_getUser clerkClient (session_userId s) = Inr u))) \<longrightarrow>
      optional_outcome is_SessionAuth (clerk_getSession clerkClient request) \<and>
      required_outcome is_SessionAuth (clerk_requireSession clerkClient request)) \<and>
   (\<forall>i e. headers request ''x-clerk-session-id'' = Some i \<and> i \<noteq> [] \<and>
          (sessions_getSession clerkClient i = Inl e \<or>
           (\<exists>s. sessions_getSession clerkClient i = Inr (Some s) \<and>
                users_getUser clerkClient (session_userId s) = Inl e)) \<longrightarrow>
      clerk_getSession clerkClient request = Inl (ProviderError e) \<and>
      clerk_requireSession clerkClient request = Inl (ProviderError e)) \<and>
   (headers request ''x-api-key'' = None \<or> headers request ''x-api-key'' = Some [] \<or>
    (\<exists>h r. headers request ''x-api-key'' = Some h \<and>
           apiKeys_findFirst clerkClient h = Inr r) \<longrightarrow>
      optional_outcome is_ApiKeyAuth (clerk_validateApiKey clerkClient request) \<and>
      required_outcome is_ApiKeyAuth (clerk_requireApiKey clerkClient request p)) \<and>
   (\<forall>h e. headers request ''x-api-key'' = Some h \<and> h \<noteq> [] \<and>
          apiKeys_findFirst clerkClient h = Inl e \<longrightarrow>
      clerk_validateApiKey clerkClient request = Inl (ProviderError e) \<and>
      clerk_requireApiKey clerkClient request p = Inl (ProviderError e))"
proof -
  have ba_session: "\<forall>r. api_getSession auth (headers request) = Inr r \<longrightarrow>
      optional_outcome is_SessionAuth (ba_getSession auth request) \<and>
      required_outcome is_SessionAuth (ba_requireSession auth request)"
    unfolding ba_requireSession_def
    using optional_outcome_ba_getSession required_outcome_requireSession by blast
  have ba_session_fails: "\<forall>e. api_getSession auth (headers request) = Inl e \<longrightarrow>
      ba_getSession auth request = Inl (ProviderError e) \<and>
      ba_requireSession auth request = Inl (ProviderError e)"
    by (simp add: ba_getSession_def ba_requireSession_def requireSession_def)
  have ba_key: "headers request ''x-api-key'' = None \<or>
    headers request ''x-api-key'' = Some [] \<or>
    (\<exists>h r. headers request ''x-api-key'' = Some h \<and> api_verifyApiKey auth h = Inr r \<and>
           (valid r \<longrightarrow> key r \<noteq> None)) \<longrightarrow>
      optional_outcome is_ApiKeyAuth (ba_validateApiKey auth request) \<and>
      required_outcome is_ApiKeyAuth (ba_requireApiKey auth request p)"
    unfolding ba_requireApiKey_def
    using optional_outcome_ba_validateApiKey [of request auth]
      required_outcome_requireApiKey [of "ba_validateApiKey auth" request p]
    by blast
  have ba_key_fails: "\<forall>h e. headers request ''x-api-key'' = Some h \<and> h \<noteq> [] \<and>
          api_verifyApiKey auth h = Inl e \<longrightarrow>
      ba_validateApiKey auth request = Inl (ProviderError e) \<and>
      ba_requireApiKey auth request p = Inl (ProviderError e)"
    by (simp add: ba_validateApiKey_def ba_requireApiKey_def requireApiKey_def)
  have clerk_session: "headers request ''x-clerk-session-id'' = None \<or>
    headers request ''x-clerk-session-id'' = Some [] \<or>
    (\<exists>i. headers request ''x-clerk-session-id'' = Some i \<and>
         (sessions_getSession clerkClient i = Inr None \<or>
          (\<exists>s u. sessions_getSession clerkClient i = Inr (Some s) \<and>
                 users_getUser clerkClient (session_userId s) = Inr u))) \<longrightarrow>
      optional_outcome is_SessionAuth (clerk_getSession clerkClient request) \<and>
      required_outcome is_SessionAuth (clerk_requireSession clerkClient request)"
    unfolding clerk_requireSession_def
    using optional_outcome_clerk_getSession [of request clerkClient]
      required_outcome_requireSession [of is_SessionAuth "clerk_getSession clerkClient" request]
    by blast
  have clerk_session_fails:
    "\<forall>i e. headers request ''x-clerk-session-id'' = Some i \<and> i \<noteq> [] \<and>
          (sessions_getSession clerkClient i = Inl e \<or>
           (\<exists>s. sessions_getSession clerkClient i = Inr (Some s) \<and>
                users_getUser clerkClient (session_userId s) = Inl e)) \<longrightarrow>
      clerk_getSession clerkClient request = Inl (ProviderError e) \<and>
      clerk_requireSession clerkClient request = Inl (ProviderError e)"
    by (auto simp: clerk_getSession_def clerk_requireSession_def requireSession_def)
  have clerk_key: "headers request ''x-api-key'' = None \<or>
    headers request ''x-api-key'' = Some [] \<or>
    (\<exists>h r. headers request ''x-api-key'' = Some h \<and>
           apiKeys_findFirst clerkClient h = Inr r) \<longrightarrow>
      optional_outcome is_ApiKeyAuth (clerk_validateApiKey clerkClient request) \<and>
      required_outcome is_ApiKeyAuth (clerk_requireApiKey clerkClient request p)"
    unfolding clerk_requireApiKey_def
    using optional_outcome_clerk_validateApiKey [of request clerkClient]
      required_outcome_requireApiKey [of "clerk_validateApiKey clerkClient" request p]
    by blast
  have clerk_key_fails: "\<forall>h e. headers request ''x-api-key'' = Some h \<and> h \<noteq> [] \<and>
          apiKeys_findFirst clerkClient h = Inl e \<longrightarrow>
      clerk_validateApiKey clerkClient request = Inl (ProviderError e) \<and>
      clerk_requireApiKey clerkClient request p = Inl (ProviderError e)"
    by (simp add: clerk_validateApiKey_def clerk_requireApiKey_def requireApiKey_def)
  from ba_session ba_session_fails ba_key ba_key_fails
    clerk_session clerk_session_fails clerk_key clerk_key_fails
  show ?thesis by (intro conjI)
qed

theorem provider_answers_normalized_witness:
  "optional_outcome is_SessionAuth (ba_getSession sample_auth with_cookie) \<and>
   required_outcome is_SessionAuth (ba_requireSession sample_auth with_cookie) \<and>
   required_outcome is_ApiKeyAuth (ba_requireApiKey sample_auth no_credentials (Some Write)) \<and>
   optional_outcome is_ApiKeyAuth (ba_validateApiKey sample_auth (with_key ''abc123'')) \<and>
   required_outcome is_ApiKeyAuth (ba_requireApiKey sample_auth (with_key ''abc123'') (Some Write)) \<and>
   ba_requireSession failing_auth with_cookie = Inl (ProviderError ''ECONNREFUSED'') \<and>
   ba_validateApiKey failing_auth (with_key ''abc123'') = Inl (ProviderError ''ECONNREFUSED'') \<and>
   required_outcome is_SessionAuth (clerk_requireSession sample_clerk with_clerk_session) \<and>
   required_outcome is_ApiKeyAuth
     (clerk_requireApiKey sample_clerk (with_key ''abc123'') (Some Write)) \<and>
   clerk_getSession
     (sample_clerk\<lparr>users_getUser := (\<lambda>i. Inl ''ETIMEDOUT'')\<rparr>) with_clerk_session =
     Inl (ProviderError ''ETIMEDOUT'') \<and>
   clerk_requireApiKey
     (sample_clerk\<lparr>apiKeys_findFirst := (\<lambda>k. Inl ''ETIMEDOUT'')\<rparr>) (with_key ''abc123'')
     (Some Read) = Inl (ProviderError ''ETIMEDOUT'')"
proof -
  have "api_getSession sample_auth (headers with_cookie) = Inr (Some sample_session)"
    and "headers no_credentials ''x-api-key'' = None"
    and "headers (with_key ''abc123'') ''x-api-key'' = Some ''abc123''"
    and "api_verifyApiKey sample_auth ''abc123'' =
           Inr \<lparr>valid = True,
                key = Some \<lparr>key_id = ''k1'', key_name = Some ''ci'',
                            key_permissions = [Read]\<rparr>\<rparr>"
    and "api_getSession failing_auth (headers with_cookie) = Inl ''ECONNREFUSED''"
    and "api_verifyApiKey failing_auth ''abc123'' = Inl ''ECONNREFUSED''"
    and "headers with_clerk_session ''x-clerk-session-id'' = Some ''sess_1''"
    and "sessions_getSession sample_clerk ''sess_1'' =
           Inr (Some \<lparr>clerk_session_id = ''sess_1'', session_userId = ''user_1'',
                       expireAt = 1700000000000\<rparr>)"
    and "users_getUser sample_clerk ''user_1'' =
           Inr \<lparr>clerk_user_id = ''user_1'', emailAddresses = [''ada@example.org''],
                firstName = Some ''Ada'', lastName = None, imageUrl = ''https://img/1''\<rparr>"
    and "apiKeys_findFirst sample_clerk ''abc123'' =
           Inr (Some \<lparr>clerk_key_id = ''k1'', clerk_key_name = ''ci'',
                       clerk_key_permissions = [Read]\<rparr>)"
    and "sessions_getSession (sample_clerk\<lparr>users_getUser := (\<lambda>i. Inl ''ETIMEDOUT'')\<rparr>)
           ''sess_1'' =
           Inr (Some \<lparr>clerk_session_id = ''sess_1'', session_userId = ''user_1'',
                       expireAt = 1700000000000\<rparr>)"
    and "users_getUser (sample_clerk\<lparr>users_getUser := (\<lambda>i. Inl ''ETIMEDOUT'')\<rparr>) ''user_1'' =
           Inl ''ETIMEDOUT''"
    and "apiKeys_findFirst (sample_clerk\<lparr>apiKeys_findFirst := (\<lambda>k. Inl ''ETIMEDOUT'')\<rparr>)
           ''abc123'' = Inl ''ETIMEDOUT''"
    by (simp_all add: sample_defs)
  with provider_answers_normalized [of sample_auth with_cookie "Some Write" sample_clerk]
    provider_answers_normalized [of sample_auth no_credentials "Some Write" sample_clerk]
    provider_answers_normalized [of sample_auth "with_key ''abc123''" "Some Write" sample_clerk]
    provider_answers_normalized [of failing_auth with_cookie "Some Write" sample_clerk]
    provider_answers_normalized [of failing_auth "with_key ''abc123''" "Some Write" sample_clerk]
    provider_answers_normalized [of sample_auth with_clerk_session "Some Write" sample_clerk]
    provider_answers_normalized [of sample_auth with_clerk_session "Some Write"
      "sample_clerk\<lparr>users_getUser := (\<lambda>i. Inl ''ETIMEDOUT'')\<rparr>"]
    provider_answers_normalized [of sample_auth "with_key ''abc123''" "Some Read"
      "sample_clerk\<lparr>apiKeys_findFirst := (\<lambda>k. Inl ''ETIMEDOUT'')\<rparr>"]
  show ?thesis by simp
qed

text \<open>The claim as stated, that a failure of the provider never crosses the boundary, fails
  on a provider whose store cannot be reached.\<close>

theorem provider_failure_propagates:
  "ba_getSession failing_auth with_cookie = Inl (ProviderError ''ECONNREFUSED'') \<and>
   \<not> optional_outcome is_SessionAuth (ba_getSession failing_auth with_cookie) \<and>
   ba_requireApiKey failing_auth (with_key ''abc123'') (Some Read) =
     Inl (ProviderError ''ECONNREFUSED'') \<and>
   \<not> required_outcome is_ApiKeyAuth
        (ba_requireApiKey failing_auth (with_key ''abc123'') (Some Read))"
  by (simp add: ba_getSession_def ba_validateApiKey_def ba_requireApiKey_def requireApiKey_def
      sample_defs optional_outcome_def required_outcome_def boundary_error_def)

subsection \<open>The shape of the values\<close>

text \<open>
  \<^bold>\<open>C6\<close>, as amended. Every value returned by \<^verbatim>\<open>getSession\<close> or \<^verbatim>\<open>requireSession\<close>, of either
  adapter, carries the discriminant property \<^verbatim>\<open>type\<close> = \<^verbatim>\<open>'session'\<close>, is a \<^verbatim>\<open>SessionAuth\<close>
  (\<^verbatim>\<open>user: {id, email, name?, image?}\<close>, \<^verbatim>\<open>session: {id, expiresAt}\<close>) and has exactly the
  properties \<^verbatim>\<open>type\<close>, \<^verbatim>\<open>user\<close>, \<^verbatim>\<open>session\<close>; every value returned by \<^verbatim>\<open>validateApiKey\<close> or
  \<^verbatim>\<open>requireApiKey\<close> carries \<^verbatim>\<open>type\<close> = \<^verbatim>\<open>'api_key'\<close>, is an \<^verbatim>\<open>ApiKeyAuth\<close> and has exactly the
  properties \<^verbatim>\<open>type\<close>, \<^verbatim>\<open>keyId\<close>, \<^verbatim>\<open>name\<close>, \<^verbatim>\<open>permissions\<close> (the optional \<^verbatim>\<open>lastUsedAt\<close> is
  never set).
\<close>

theorem auth_values_discriminant_type:
  "(\<forall>a. ba_getSession auth request = Inr (Some a) \<or> ba_requireSession auth request = Inr a \<or>
        clerk_getSession clerkClient request = Inr (Some a) \<or>
        clerk_requireSession clerkClient request = Inr a \<longrightarrow>
      property a ''type'' = JString ''session'' \<and> is_SessionAuth a \<and>
      map fst a = [''type'', ''user'', ''session'']) \<and>
   (\<forall>k. ba_validateApiKey auth request = Inr (Some k) \<or>
        ba_requireApiKey auth request p = Inr k \<or>
        clerk_validateApiKey clerkClient request = Inr (Some k) \<or>
        clerk_requireApiKey clerkClient request p = Inr k \<longrightarrow>
      property k ''type'' = JString ''api_key'' \<and> is_ApiKeyAuth k \<and>
      map fst k = [''type'', ''keyId'', ''name'', ''permissions''])"
proof (rule conjI; intro allI impI)
  fix a
  assume "ba_getSession auth request = Inr (Some a) \<or> ba_requireSession auth request = Inr a \<or>
        clerk_getSession clerkClient request = Inr (Some a) \<or>
        clerk_requireSession clerkClient request = Inr a"
  then have "ba_getSession auth request = Inr (Some a) \<or>
        clerk_getSession clerkClient request = Inr (Some a)"
    by (auto simp: ba_requireSession_def clerk_requireSession_def requireSession_Inr)
  then show "property a ''type'' = JString ''session'' \<and> is_SessionAuth a \<and>
      map fst a = [''type'', ''user'', ''session'']"
    using ba_session_shape clerk_session_shape by blast
next
  fix k
  assume "ba_validateApiKey auth request = Inr (Some k) \<or>
        ba_requireApiKey auth request p = Inr k \<or>
        clerk_validateApiKey clerkClient request = Inr (Some k) \<or>
        clerk_requireApiKey clerkClient request p = Inr k"
  then have "ba_validateApiKey auth request = Inr (Some k) \<or>
        clerk_validateApiKey clerkClient request = Inr (Some k)"
    by (auto simp: ba_requireApiKey_def clerk_requireApiKey_def dest: requireApiKey_Inr)
  then show "property k ''type'' = JString ''api_key'' \<and> is_ApiKeyAuth k \<and>
      map fst k = [''type'', ''keyId'', ''name'', ''permissions'']"
    using ba_key_shape clerk_key_shape by blast
qed

theorem auth_values_discriminant_type_witness:
  "property
     [(''type'', JString ''session''),
      (''user'', JObject [(''id'', JString ''u1''), (''email'', JString ''ada@example.org''),
                          (''name'', JString ''Ada''), (''image'', JUndefined)]),
      (''session'', JObject [(''id'', JString ''s1''), (''expiresAt'', JDate 1700000000000)])]
     ''type'' = JString ''session'' \<and>
   is_SessionAuth
     [(''type'', JString ''session''),
      (''user'', JObject [(''id'', JString ''u1''), (''email'', JString ''ada@example.org''),
                          (''name'', JString ''Ada''), (''image'', JUndefined)]),
      (''session'', JObject [(''id'', JString ''s1''), (''expiresAt'', JDate 1700000000000)])] \<and>
   is_SessionAuth
     [(''type'', JString ''session''),
      (''user'', JObject [(''id'', JString ''user_1''), (''email'', JString ''ada@example.org''),
                          (''name'', JString ''Ada null''),
                          (''image'', JString ''https://img/1'')]),
      (''session'', JObject [(''id'', JString ''sess_1''),
                             (''expiresAt'', JDate 1700000000000)])] \<and>
   is_ApiKeyAuth
     [(''type'', JString ''api_key''), (''keyId'', JString ''k1''), (''name'', JString ''ci''),
      (''permissions'', JArray [JString ''read'', JString ''write''])] \<and>
   is_ApiKeyAuth
     [(''type'', JString ''api_key''), (''keyId'', JString ''k1''), (''name'', JString ''ci''),
      (''permissions'', JArray [JString ''read''])]"
proof -
  have g: "ba_getSession sample_auth with_cookie = Inr (Some
     [(''type'', JString ''session''),
      (''user'', JObject [(''id'', JString ''u1''), (''email'', JString ''ada@example.org''),
                          (''name'', JString ''Ada''), (''image'', JUndefined)]),
      (''session'', JObject [(''id'', JString ''s1''), (''expiresAt'', JDate 1700000000000)])])"
    by (simp add: ba_getSession_def sample_defs nullish_undefined_def)
  have v: "ba_validateApiKey sample_auth (with_key ''abc123'') = Inr (Some
     [(''type'', JString ''api_key''), (''keyId'', JString ''k1''), (''name'', JString ''ci''),
      (''permissions'', JArray [JString ''read'', JString ''write''])])"
    by (simp add: ba_validateApiKey_def sample_defs)
  have cg: "clerk_getSession sample_clerk with_clerk_session = Inr (Some
     [(''type'', JString ''session''),
      (''user'', JObject [(''id'', JString ''user_1''), (''email'', JString ''ada@example.org''),
                          (''name'', JString ''Ada null''),
                          (''image'', JString ''https://img/1'')]),
      (''session'', JObject [(''id'', JString ''sess_1''),
                             (''expiresAt'', JDate 1700000000000)])])"
    by (simp add: clerk_getSession_def sample_defs template_string_def)
  have cv: "clerk_validateApiKey sample_clerk (with_key ''abc123'') = Inr (Some
     [(''type'', JString ''api_key''), (''keyId'', JString ''k1''), (''name'', JString ''ci''),
      (''permissions'', JArray [JString ''read''])])"
    by (simp add: clerk_validateApiKey_def sample_defs permission_lit_def)
  from auth_values_discriminant_type [of sample_auth with_cookie sample_clerk None] g
    auth_values_discriminant_type [of sample_auth "with_key ''abc123''" sample_clerk None] v cv
    auth_values_discriminant_type [of sample_auth with_clerk_session sample_clerk None] cg
  show ?thesis by blast
qed

text \<open>The claim as stated names the discriminant \<^verbatim>\<open>kind\<close>: the values have no such property.\<close>

theorem auth_values_no_kind_property:
  "(case ba_getSession sample_auth with_cookie of
      Inr (Some a) \<Rightarrow> property a ''kind'' = JUndefined \<and> property a ''type'' = JString ''session''
    | _ \<Rightarrow> False) \<and>
   (case ba_validateApiKey sample_auth (with_key ''abc123'') of
      Inr (Some k) \<Rightarrow> property k ''kind'' = JUndefined \<and> property k ''type'' = JString ''api_key''
    | _ \<Rightarrow> False)"
  by (simp add: ba_getSession_def ba_validateApiKey_def sample_defs property_def)

subsection \<open>Repeated resolution\<close>

text \<open>
  \<^bold>\<open>C8.\<close> For every request with a valid session token, calling \<^verbatim>\<open>getSession\<close> twice with the
  same request and unchanged provider state yields structurally identical \<^verbatim>\<open>SessionAuth\<close>
  results. \<open>auth\<close> is the provider at the first call and \<open>auth'\<close> at the second; its state
  being unchanged, it answers the request's headers with the same session \<open>s\<close>. The result
  is a \<^verbatim>\<open>SessionAuth\<close> whose \<^verbatim>\<open>user\<close> is that of \<open>s\<close>. Likewise for the Clerk adapter, whose
  client answers with the same session and the same user at both calls.
\<close>

theorem getSession_repeatable:
  "(api_getSession auth (headers request) = Inr (Some s) \<and>
    api_getSession auth' (headers request) = Inr (Some s) \<longrightarrow>
      ba_getSession auth' request = ba_getSession auth request \<and>
      (\<exists>a. ba_getSession auth request = Inr (Some a) \<and> is_SessionAuth a \<and>
           property a ''user'' =
             JObject [(''id'', JString (user_id (user s))),
                      (''email'', JString (user_email (user s))),
                      (''name'', nullish_undefined (user_name (user s))),
                      (''image'', nullish_undefined (user_image (user s)))])) \<and>
   (headers request ''x-clerk-session-id'' = Some i \<and> i \<noteq> [] \<and>
    sessions_getSession clerkClient i = Inr (Some cs) \<and>
    sessions_getSession clerkClient' i = Inr (Some cs) \<and>
    users_getUser clerkClient (session_userId cs) = Inr u \<and>
    users_getUser clerkClient' (session_userId cs) = Inr u \<longrightarrow>
      clerk_getSession clerkClient' request = clerk_getSession clerkClient request \<and>
      (\<exists>a. clerk_getSession clerkClient request = Inr (Some a) \<and> is_SessionAuth a))"
proof (rule conjI; rule impI)
  assume "api_getSession auth (headers request) = Inr (Some s) \<and>
    api_getSession auth' (headers request) = Inr (Some s)"
  then show "ba_getSession auth' request = ba_getSession auth request \<and>
      (\<exists>a. ba_getSession auth request = Inr (Some a) \<and> is_SessionAuth a \<and>
           property a ''user'' =
             JObject [(''id'', JString (user_id (user s))),
                      (''email'', JString (user_email (user s))),
                      (''name'', nullish_undefined (user_name (user s))),
                      (''image'', nullish_undefined (user_image (user s)))])"
    by (simp add: ba_getSession_def is_SessionAuth_def property_def is_string_def is_date_def
        is_optional_string_nullish)
next
  assume "headers request ''x-clerk-session-id'' = Some i \<and> i \<noteq> [] \<and>
    sessions_getSession clerkClient i = Inr (Some cs) \<and>
    sessions_getSession clerkClient' i = Inr (Some cs) \<and>
    users_getUser clerkClient (session_userId cs) = Inr u \<and>
    users_getUser clerkClient' (session_userId cs) = Inr u"
  then show "clerk_getSession clerkClient' request = clerk_getSession clerkClient request \<and>
      (\<exists>a. clerk_getSession clerkClient request = Inr (Some a) \<and> is_SessionAuth a)"
    by (simp add: clerk_getSession_def is_SessionAuth_def property_def is_string_def
        is_date_def is_optional_string_def)
qed

theorem getSession_repeatable_witness:
  "ba_getSession (sample_auth\<lparr>api_verifyApiKey := (\<lambda>k. Inl ''ECONNREFUSED'')\<rparr>) with_cookie =
     ba_getSession sample_auth with_cookie \<and>
   ba_getSession sample_auth with_cookie =
     Inr (Some
       [(''type'', JString ''session''),
        (''user'', JObject [(''id'', JString ''u1''), (''email'', JString ''ada@example.org''),
                            (''name'', JString ''Ada''), (''image'', JUndefined)]),
        (''session'', JObject [(''id'', JString ''s1''),
                               (''expiresAt'', JDate 1700000000000)])]) \<and>
   clerk_getSession (sample_clerk\<lparr>apiKeys_findFirst := (\<lambda>k. Inl ''ETIMEDOUT'')\<rparr>)
       with_clerk_session =
     clerk_getSession sample_clerk with_clerk_session"
proof -
  have "api_getSession sample_auth (headers with_cookie) = Inr (Some sample_session)"
    and "api_getSession (sample_auth\<lparr>api_verifyApiKey := (\<lambda>k. Inl ''ECONNREFUSED'')\<rparr>)
           (headers with_cookie) = Inr (Some sample_session)"
    and "headers with_cookie ''x-clerk-session-id'' = None"
    by (simp_all add: sample_defs)
  with getSession_repeatable
    [of sample_auth with_cookie sample_session
      "sample_auth\<lparr>api_verifyApiKey := (\<lambda>k. Inl ''ECONNREFUSED'')\<rparr>"]
  have ba: "ba_getSession (sample_auth\<lparr>api_verifyApiKey := (\<lambda>k. Inl ''ECONNREFUSED'')\<rparr>)
              with_cookie = ba_getSession sample_auth with_cookie"
    by simp
  have val: "ba_getSession sample_auth with_cookie =
     Inr (Some
       [(''type'', JString ''session''),
        (''user'', JObject [(''id'', JString ''u1''), (''email'', JString ''ada@example.org''),
                            (''name'', JString ''Ada''), (''image'', JUndefined)]),
        (''session'', JObject [(''id'', JString ''s1''),
                               (''expiresAt'', JDate 1700000000000)])])"
    by (simp add: ba_getSession_def sample_defs nullish_undefined_def)
  have "headers with_clerk_session ''x-clerk-session-id'' = Some ''sess_1''"
    and "sessions_getSession sample_clerk ''sess_1'' =
           Inr (Some \<lparr>clerk_session_id = ''sess_1'', session_userId = ''user_1'',
                       expireAt = 1700000000000\<rparr>)"
    and "sessions_getSession (sample_clerk\<lparr>apiKeys_findFirst := (\<lambda>k. Inl ''ETIMEDOUT'')\<rparr>)
           ''sess_1'' =
           Inr (Some \<lparr>clerk_session_id = ''sess_1'', session_userId = ''user_1'',
                       expireAt = 1700000000000\<rparr>)"
    and "users_getUser sample_clerk ''user_1'' =
           Inr \<lparr>clerk_user_id = ''user_1'', emailAddresses = [''ada@example.org''],
                firstName = Some ''Ada'', lastName = None, imageUrl = ''https://img/1''\<rparr>"
    and "users_getUser (sample_clerk\<lparr>apiKeys_findFirst := (\<lambda>k. Inl ''ETIMEDOUT'')\<rparr>)
           ''user_1'' =
           Inr \<lparr>clerk_user_id = ''user_1'', emailAddresses = [''ada@example.org''],
                firstName = Some ''Ada'', lastName = None, imageUrl = ''https://img/1''\<rparr>"
    by (simp_all add: sample_defs)
  with getSession_repeatable
    [where request = with_clerk_session and i = "''sess_1''" and clerkClient = sample_clerk
       and clerkClient' = "sample_clerk\<lparr>apiKeys_findFirst := (\<lambda>k. Inl ''ETIMEDOUT'')\<rparr>"
       and cs = "\<lparr>clerk_session_id = ''sess_1'', session_userId = ''user_1'',
                  expireAt = 1700000000000\<rparr>"
       and u = "\<lparr>clerk_user_id = ''user_1'', emailAddresses = [''ada@example.org''],
                 firstName = Some ''Ada'', lastName = None, imageUrl = ''https://img/1''\<rparr>"]
  have ck: "clerk_getSession (sample_clerk\<lparr>apiKeys_findFirst := (\<lambda>k. Inl ''ETIMEDOUT'')\<rparr>)
              with_clerk_session = clerk_getSession sample_clerk with_clerk_session"
    by simp
  from ba val ck show ?thesis by simp
qed

subsection \<open>The profile of a new user\<close>

text \<open>What the hook does when \<^verbatim>\<open>ctx.context.user\<close> is set on the sign-up path: one statement,
  the insert of the profile \<^verbatim>\<open>{userId: user.id, role: 'editor'}\<close>, which on a table holding
  no profile of that user adds that one row and leaves the others as they are. On any other
  path, and when \<^verbatim>\<open>ctx.context.user\<close> is not set, it sends nothing.\<close>

lemma after_hook_user_set:
  "path ctx = ''/sign-up/email'' \<Longrightarrow> context_user ctx = Some u \<Longrightarrow>
   after_hook ctx =
     [Insert_userProfiles \<lparr>userId = user_id u, role = Some Editor, preferences = None\<rparr>] \<and>
   (user_id u \<notin> set (map userId tbl) \<longrightarrow>
      run_db (after_hook ctx) tbl =
        Inr (tbl @ [\<lparr>userId = user_id u, role = Some Editor, preferences = None\<rparr>]))"
  by (simp add: after_hook_def)

lemma after_hook_user_unset:
  "context_user ctx = None \<or> path ctx \<noteq> ''/sign-up/email'' \<Longrightarrow> after_hook ctx = []"
  by (auto simp: after_hook_def)

text \<open>
  \<^bold>\<open>C10.\<close> On every successful email sign-up (path \<^verbatim>\<open>/sign-up/email\<close>, with a created user)
  exactly one profile with that user's id and the role \<^verbatim>\<open>editor\<close> should be inserted, by a
  single insert. The hook, whose own comment reads \<^verbatim>\<open>Sync user profile on signup\<close>, does not
  do so: it looks for the created user in \<^verbatim>\<open>ctx.context.user\<close>, and after a successful sign-up
  the user is in \<^verbatim>\<open>ctx.context.newSession\<close>. Evaluated on the sign-up of \<open>sample_user\<close>: the
  hook sends no statement, and the table of profiles stays empty.
\<close>

theorem signup_hook_inserts_nothing:
  "path signup_ctx = ''/sign-up/email'' \<and>
   context_newSession signup_ctx = Some sample_session \<and>
   user sample_session = sample_user \<and>
   context_user signup_ctx = None \<and>
   after_hook signup_ctx = [] \<and>
   run_db (after_hook signup_ctx) [] = Inr []"
  by (simp add: after_hook_def sample_defs)

end
